theory Spec2Isabelle
  imports Complex_Main "HOL-Library.Log_Nat"
begin

unbundle bit_operations_syntax

section \<open>Python values used by subnetting.py\<close>

text \<open>
  Python integers are unbounded: they are \<^typ>\<open>int\<close>. A Python \<open>str\<close> is a
  \<^typ>\<open>string\<close>; a \<^typ>\<open>char\<close> stands for the code point of the same number, so the
  model covers the texts whose code points are below 256.
\<close>

text \<open>
  Every \<open>raise\<close> of the script is a \<open>ValueError\<close>; the constructors name the raising
  line, since the messages are what tells them apart. \<open>IntLiteralError\<close> is the
  \<open>ValueError\<close> of \<open>int(part)\<close> itself, \<open>ShiftTypeError\<close> the \<open>TypeError\<close> of
  \<open>>>\<close> applied to a float.
\<close>

datatype error =
    CidrNotBetween0And32
  | SubnetsNotPositive
  | CannotCreateSubnets
  | NotFourOctets
  | OctetNotNumber string
  | OctetOutsideRange string
  | IntLiteralError string
  | CidrNotIn0To32
  | ShiftTypeError

text \<open>
  \<open>2 ** e\<close> is an integer for \<open>e \<ge> 0\<close> and a float for \<open>e < 0\<close>. The value of the
  float is not modelled: the script only ever shifts it, which raises.
\<close>

datatype pynum = PyInt int | PyFloat

definition pow2 :: "int \<Rightarrow> pynum" where
  "pow2 e = (if 0 \<le> e then PyInt (2 ^ nat e) else PyFloat)"

subsection \<open>\<open>str(n)\<close>, \<open>int(s)\<close>, \<open>int(s, 2)\<close>, \<open>format(n, '0wb')\<close>\<close>

definition digit_char :: "int \<Rightarrow> char" where
  "digit_char d = char_of (48 + d)"

text \<open>The decimal digits of \<open>n \<ge> 0\<close>, as \<open>str\<close> writes them.\<close>

function str_nat :: "int \<Rightarrow> string" where
  "str_nat n = (if n < 10 then [digit_char n] else str_nat (n div 10) @ [digit_char (n mod 10)])"
  by pat_completeness auto
termination
  by (relation "measure nat") auto

declare str_nat.simps [simp del]

definition str_int :: "int \<Rightarrow> string" where
  "str_int i = (if i < 0 then CHR ''-'' # str_nat (- i) else str_nat i)"

definition is_ascii_digit :: "char \<Rightarrow> bool" where
  "is_ascii_digit c = (48 \<le> (of_char c :: int) \<and> (of_char c :: int) \<le> 57)"

definition digit_val :: "char \<Rightarrow> int" where
  "digit_val c = of_char c - 48"

text \<open>The value of a string of digits in base \<open>b\<close>, most significant digit first.\<close>

definition digits_value :: "int \<Rightarrow> string \<Rightarrow> int" where
  "digits_value b s = foldl (\<lambda>acc c. acc * b + digit_val c) 0 s"

text \<open>
  \<open>int(s, 2)\<close> on the strings the script gives it, which hold only \<open>0\<close> and \<open>1\<close>
  (\<open>bits_only\<close> below says so of each of them).
\<close>

definition int_base2 :: "string \<Rightarrow> int" where
  "int_base2 s = digits_value 2 s"

text \<open>
  \<open>int(part)\<close> where \<open>part.isdigit()\<close> holds. \<open>isdigit\<close> also accepts the superscript
  digits (code points 178, 179 and 185), which \<open>int\<close> rejects; and CPython (3.11 and
  later, by default) rejects a literal of more than 4300 digits.
\<close>

definition int_max_str_digits :: nat where
  "int_max_str_digits = 4300"

definition int_of_str :: "string \<Rightarrow> error + int" where
  "int_of_str s =
     (if \<not> list_all is_ascii_digit s then Inl (IntLiteralError s)
      else if length s > int_max_str_digits then Inl (IntLiteralError s)
      else Inr (digits_value 10 s))"

definition isdigit_char :: "char \<Rightarrow> bool" where
  "isdigit_char c = (is_ascii_digit c \<or> (of_char c :: int) \<in> {178, 179, 185})"

definition isdigit :: "string \<Rightarrow> bool" where
  "isdigit s = (s \<noteq> [] \<and> list_all isdigit_char s)"

definition isspace_char :: "char \<Rightarrow> bool" where
  "isspace_char c =
     (let n = of_char c :: int in (9 \<le> n \<and> n \<le> 13) \<or> (28 \<le> n \<and> n \<le> 32) \<or> n = 133 \<or> n = 160)"

definition strip :: "string \<Rightarrow> string" where
  "strip s = rev (dropWhile isspace_char (rev (dropWhile isspace_char s)))"

fun split :: "char \<Rightarrow> string \<Rightarrow> string list" where
  "split c [] = [[]]"
| "split c (x # xs) =
     (if x = c then [] # split c xs
      else (x # hd (split c xs)) # tl (split c xs))"

fun join :: "string \<Rightarrow> string list \<Rightarrow> string" where
  "join sep [] = []"
| "join sep [p] = p"
| "join sep (p # q # ps) = p @ sep @ join sep (q # ps)"

text \<open>The binary digits of \<open>n \<ge> 0\<close>.\<close>

function bin_nat :: "int \<Rightarrow> string" where
  "bin_nat n = (if n < 2 then [digit_char n] else bin_nat (n div 2) @ [digit_char (n mod 2)])"
  by pat_completeness auto
termination
  by (relation "measure nat") auto

declare bin_nat.simps [simp del]

definition zfill :: "nat \<Rightarrow> string \<Rightarrow> string" where
  "zfill w s = replicate (w - length s) CHR ''0'' @ s"

text \<open>\<open>format(v, '0wb')\<close>: binary digits, zero-padded to width \<open>w\<close>, the sign first.\<close>

definition format_b :: "nat \<Rightarrow> int \<Rightarrow> string" where
  "format_b w v =
     (if v < 0 then CHR ''-'' # zfill (w - 1) (bin_nat (- v)) else zfill w (bin_nat v))"

section \<open>The functions of subnetting.py\<close>

subsection \<open>\<open>calculate_new_subnet_mask_for_subnets\<close>\<close>

text \<open>
  \<open>math.ceil(math.log2(n))\<close> is \<open>\<lceil>log 2 n\<rceil>\<close>, which is \<^const>\<open>ceillog2\<close>. The script
  computes the logarithm in double precision; it is exact on the powers of two and, for
  \<open>n\<close> up to \<open>2 ^ 46\<close>, far enough from an integer elsewhere for the ceiling to be that of
  the real logarithm. For larger \<open>n\<close> both are above 32 and the function raises; the
  number in the message, which the model leaves out, is then the only difference.
\<close>

definition calculate_new_subnet_mask_for_subnets :: "int \<Rightarrow> int \<Rightarrow> error + (int \<times> int \<times> int)" where
  "calculate_new_subnet_mask_for_subnets base_mask desired_subnets =
     (if \<not> (0 \<le> base_mask \<and> base_mask \<le> 32) then Inl CidrNotBetween0And32
      else if desired_subnets \<le> 0 then Inl SubnetsNotPositive
      else
        let bits_to_borrow = int (ceillog2 (nat desired_subnets));
            new_mask = base_mask + bits_to_borrow
        in if new_mask > 32 then Inl CannotCreateSubnets
           else
             let total_subnets = 2 ^ nat bits_to_borrow
             in Inr (new_mask, total_subnets, bits_to_borrow))"

subsection \<open>\<open>get_ip_address\<close>\<close>

text \<open>The loop over the parts: the two lists grow together, the first bad part raises.\<close>

fun octets_loop :: "string list \<Rightarrow> string list \<Rightarrow> string list \<Rightarrow> error + (string list \<times> string list)" where
  "octets_loop [] octets_decimal octets_binary = Inr (octets_decimal, octets_binary)"
| "octets_loop (part # parts) octets_decimal octets_binary =
     (if \<not> isdigit part then Inl (OctetNotNumber part)
      else case int_of_str part of
        Inl e \<Rightarrow> Inl e
      | Inr octet_value \<Rightarrow>
          if octet_value < 0 \<or> octet_value > 255 then Inl (OctetOutsideRange part)
          else octets_loop parts (octets_decimal @ [str_int octet_value])
                 (octets_binary @ [format_b 8 octet_value]))"

definition get_ip_address :: "string \<Rightarrow> error + (string \<times> string)" where
  "get_ip_address ip_string =
     (let parts = split CHR ''.'' (strip ip_string)
      in if length parts \<noteq> 4 then Inl NotFourOctets
         else case octets_loop parts [] [] of
           Inl e \<Rightarrow> Inl e
         | Inr (octets_decimal, octets_binary) \<Rightarrow>
             Inr (join ''.'' octets_decimal, join ''.'' octets_binary))"

subsection \<open>\<open>cidr_to_subnet_mask\<close>, \<open>get_network_address\<close>\<close>

text \<open>\<open>[s[i:i+8] for i in range(0, 32, 8)]\<close>; a slice past the end is cut short.\<close>

definition octet_slices :: "string \<Rightarrow> string list" where
  "octet_slices s = map (\<lambda>i. take 8 (drop i s)) [0, 8, 16, 24]"

definition cidr_to_subnet_mask :: "int \<Rightarrow> error + (string \<times> string)" where
  "cidr_to_subnet_mask cidr_int =
     (if \<not> (0 \<le> cidr_int \<and> cidr_int \<le> 32) then Inl CidrNotIn0To32
      else
        let binary_mask = replicate (nat cidr_int) CHR ''1'' @ replicate (nat (32 - cidr_int)) CHR ''0'';
            octets_binary = octet_slices binary_mask;
            octets_decimal = map (\<lambda>bit. str_int (int_base2 bit)) octets_binary
        in Inr (join ''.'' octets_decimal, join ''.'' octets_binary))"

text \<open>\<open>s.replace('.', '')\<close>\<close>

definition remove_dots :: "string \<Rightarrow> string" where
  "remove_dots s = filter (\<lambda>c. c \<noteq> CHR ''.'') s"

definition get_network_address :: "string \<Rightarrow> string \<Rightarrow> string \<times> string" where
  "get_network_address ip_binary mask_binary =
     (let ip_raw = remove_dots ip_binary;
          mask_raw = remove_dots mask_binary;
          ip_int = int_base2 ip_raw;
          mask_int = int_base2 mask_raw;
          network_int = ip_int AND mask_int;
          network_binary = format_b 32 network_int;
          network_octets_binary = octet_slices network_binary;
          network_octets_decimal = map (\<lambda>octet. str_int (int_base2 octet)) network_octets_binary
      in (join ''.'' network_octets_decimal, join ''.'' network_octets_binary))"

subsection \<open>\<open>calculate_possible_hosts\<close>\<close>

definition pynum_sub :: "pynum \<Rightarrow> int \<Rightarrow> pynum" where
  "pynum_sub x k = (case x of PyInt v \<Rightarrow> PyInt (v - k) | PyFloat \<Rightarrow> PyFloat)"

definition calculate_possible_hosts :: "int \<Rightarrow> pynum" where
  "calculate_possible_hosts cidr_int =
     (if cidr_int = 32 then PyInt 1
      else if cidr_int = 31 then PyInt 2
      else pynum_sub (pow2 (32 - cidr_int)) 2)"

subsection \<open>\<open>int_to_dotted\<close>\<close>

definition int_to_dotted :: "int \<Rightarrow> string" where
  "int_to_dotted ip_int =
     join ''.'' (map (\<lambda>i. str_int (drop_bit (8 * i) ip_int AND 255)) [3, 2, 1, 0])"

subsection \<open>\<open>get_subnet_ranges\<close>\<close>

record subnet =
  subnet_index :: int
  network :: string
  broadcast :: string
  first_host :: string
  last_host :: string

definition sub_dict :: "int \<Rightarrow> int \<Rightarrow> int \<Rightarrow> int \<Rightarrow> subnet" where
  "sub_dict base_network_int new_mask subnet_size i =
     (let subnet_network_int = base_network_int + i * subnet_size;
          subnet_broadcast_int = subnet_network_int + subnet_size - 1
      in \<lparr> subnet_index = i + 1,
           network = int_to_dotted subnet_network_int,
           broadcast = int_to_dotted subnet_broadcast_int,
           first_host = (if new_mask \<ge> 31 then ''N/A'' else int_to_dotted (subnet_network_int + 1)),
           last_host = (if new_mask \<ge> 31 then ''N/A'' else int_to_dotted (subnet_broadcast_int - 1)) \<rparr>)"

text \<open>
  \<open>range(total_subnets)\<close> is empty for \<open>total_subnets \<le> 0\<close>. With a float
  \<open>subnet_size\<close> (\<open>new_mask > 32\<close>) the first iteration raises in \<open>int_to_dotted\<close>.
\<close>

definition get_subnet_ranges :: "int \<Rightarrow> int \<Rightarrow> int \<Rightarrow> error + subnet list" where
  "get_subnet_ranges base_network_int new_mask total_subnets =
     (case pow2 (32 - new_mask) of
        PyFloat \<Rightarrow> if total_subnets \<le> 0 then Inr [] else Inl ShiftTypeError
      | PyInt subnet_size \<Rightarrow>
          Inr (map (\<lambda>i. sub_dict base_network_int new_mask subnet_size (int i))
                 [0 ..< nat total_subnets]))"

subsection \<open>The main execution\<close>

text \<open>
  The script's top level, from the three inputs (the two numbers already converted by
  \<open>int(input(...))\<close>) to what it prints. Each \<open>except ValueError\<close> prints and exits:
  the run ends with that error.
\<close>

record results =
  r_dotted_decimal_ip :: string
  r_base_network_dotted :: string
  r_base_network_binary :: string
  r_base_network_int :: int
  r_new_mask :: int
  r_bits_borrowed :: int
  r_total_subnets :: int
  r_hosts_per_subnet :: pynum
  r_all_subnets :: "subnet list"

definition main_execution :: "string \<Rightarrow> int \<Rightarrow> int \<Rightarrow> error + results" where
  "main_execution input_ipv4_address original_mask number_of_subnets =
     (case calculate_new_subnet_mask_for_subnets original_mask number_of_subnets of
        Inl e \<Rightarrow> Inl e
      | Inr (new_mask, total_subnets, bits_borrowed) \<Rightarrow>
     (case get_ip_address input_ipv4_address of
        Inl e \<Rightarrow> Inl e
      | Inr (dotted_decimal_ip, binary_format_ip) \<Rightarrow>
     (case cidr_to_subnet_mask original_mask of
        Inl e \<Rightarrow> Inl e
      | Inr (orig_mask_dotted, orig_mask_binary) \<Rightarrow>
     (case get_network_address binary_format_ip orig_mask_binary of
        (base_network_dotted, base_network_binary) \<Rightarrow>
     (let base_network_int = int_base2 (remove_dots base_network_binary) in
     (case cidr_to_subnet_mask new_mask of
        Inl e \<Rightarrow> Inl e
      | Inr (new_mask_dotted, new_mask_binary) \<Rightarrow>
     (let hosts_per_subnet = calculate_possible_hosts new_mask in
     (case get_subnet_ranges base_network_int new_mask total_subnets of
        Inl e \<Rightarrow> Inl e
      | Inr all_subnets \<Rightarrow>
          Inr \<lparr> r_dotted_decimal_ip = dotted_decimal_ip,
                r_base_network_dotted = base_network_dotted,
                r_base_network_binary = base_network_binary,
                r_base_network_int = base_network_int,
                r_new_mask = new_mask,
                r_bits_borrowed = bits_borrowed,
                r_total_subnets = total_subnets,
                r_hosts_per_subnet = hosts_per_subnet,
                r_all_subnets = all_subnets \<rparr>))))))))"

subsection \<open>The integer of an address text\<close>

text \<open>
  The script turns an address text into an integer in two steps: \<open>get_ip_address\<close>
  gives the binary text, and \<open>int(ip_binary.replace('.', ''), 2)\<close> (in
  \<open>get_network_address\<close>, where the result is called \<open>ip_int\<close>) reads it.
\<close>

definition ip_int :: "string \<Rightarrow> error + int" where
  "ip_int ip_string =
     (case get_ip_address ip_string of
        Inl e \<Rightarrow> Inl e
      | Inr (dotted_decimal_ip, binary_format_ip) \<Rightarrow> Inr (int_base2 (remove_dots binary_format_ip)))"

section \<open>Notions of the specification\<close>

text \<open>
  The specification's error kinds, as sets of the script's raising lines: a format error is
  a wrong number of octets or an octet that is not a number (for the script or for
  \<open>int\<close>), a range error an octet outside 0-255.
\<close>

fun is_format_error :: "error \<Rightarrow> bool" where
  "is_format_error NotFourOctets = True"
| "is_format_error (OctetNotNumber p) = True"
| "is_format_error (IntLiteralError p) = True"
| "is_format_error e = False"

fun is_range_error :: "error \<Rightarrow> bool" where
  "is_range_error (OctetOutsideRange p) = True"
| "is_range_error e = False"

text \<open>A digit-only decimal literal: one decimal digit or more, and nothing else.\<close>

definition decimal_literal :: "string \<Rightarrow> bool" where
  "decimal_literal p = (p \<noteq> [] \<and> list_all is_ascii_digit p)"

text \<open>
  A valid dotted-decimal text, in the specification's words: four parts between dots, each
  a digit-only decimal literal below the length that \<open>int\<close> refuses, of value at most 255.
\<close>

definition valid_octet :: "string \<Rightarrow> bool" where
  "valid_octet p = (decimal_literal p \<and> length p \<le> int_max_str_digits \<and> digits_value 10 p \<le> 255)"

definition valid_dotted :: "string \<Rightarrow> bool" where
  "valid_dotted s = (length (split CHR ''.'' s) = 4 \<and> list_all valid_octet (split CHR ''.'' s))"

text \<open>
  The specification's normal form: the leading zeros of each octet are stripped (an octet
  of zeros only keeps one).
\<close>

definition strip_zeros :: "string \<Rightarrow> string" where
  "strip_zeros p =
     (let r = dropWhile (\<lambda>c. c = CHR ''0'') p in if r = [] \<and> p \<noteq> [] then ''0'' else r)"

definition normalize :: "string \<Rightarrow> string" where
  "normalize s = join ''.'' (map strip_zeros (split CHR ''.'' s))"

text \<open>Four octets packed into an integer, most significant first.\<close>

definition pack_octets :: "int list \<Rightarrow> int" where
  "pack_octets vs = foldl (\<lambda>acc v. acc * 256 + v) 0 vs"

section \<open>Octets of an integer\<close>

lemma and_255: "(y::int) AND 255 = y mod 256"
proof -
  have "y AND mask 8 = y mod 2 ^ 8"
    by (simp only: take_bit_eq_mask [symmetric] take_bit_eq_mod)
  then show ?thesis by (simp add: mask_eq_exp_minus_1)
qed

lemma octet_mod:
  "n + 8 \<le> 32 \<Longrightarrow> drop_bit n (x mod 4294967296) AND 255 = drop_bit n (x::int) AND 255"
proof -
  assume n: "n + 8 \<le> 32"
  have "take_bit 8 (drop_bit n (take_bit 32 x)) = take_bit 8 (drop_bit n x)"
    using n by (intro bit_eqI) (auto simp: bit_take_bit_iff bit_drop_bit_eq)
  then show ?thesis
    by (simp add: and_255 take_bit_eq_mod)
qed

lemma int_to_dotted_mod: "int_to_dotted (x mod 2 ^ 32) = int_to_dotted x"
  using octet_mod [of 0 x] by (simp add: int_to_dotted_def octet_mod)

section \<open>The enumeration of the subnets\<close>

lemma get_subnet_ranges_int:
  "new_mask \<le> 32 \<Longrightarrow>
   get_subnet_ranges base new_mask cnt =
     Inr (map (\<lambda>i. sub_dict base new_mask (2 ^ nat (32 - new_mask)) (int i)) [0 ..< nat cnt])"
  by (simp add: get_subnet_ranges_def pow2_def)

lemma get_subnet_ranges_float:
  "32 < new_mask \<Longrightarrow> get_subnet_ranges base new_mask cnt = Inr ds \<Longrightarrow> ds = []"
  by (auto simp: get_subnet_ranges_def pow2_def split: if_splits)

lemma ranges_10_10_10_0:
  "get_subnet_ranges 168430080 26 4 =
     Inr [\<lparr>subnet_index = 1, network = ''10.10.10.0'', broadcast = ''10.10.10.63'',
            first_host = ''10.10.10.1'', last_host = ''10.10.10.62''\<rparr>,
          \<lparr>subnet_index = 2, network = ''10.10.10.64'', broadcast = ''10.10.10.127'',
            first_host = ''10.10.10.65'', last_host = ''10.10.10.126''\<rparr>,
          \<lparr>subnet_index = 3, network = ''10.10.10.128'', broadcast = ''10.10.10.191'',
            first_host = ''10.10.10.129'', last_host = ''10.10.10.190''\<rparr>,
          \<lparr>subnet_index = 4, network = ''10.10.10.192'', broadcast = ''10.10.10.255'',
            first_host = ''10.10.10.193'', last_host = ''10.10.10.254''\<rparr>]"
  by code_simp

lemma ranges_top_of_space:
  "get_subnet_ranges 4294967295 32 2 =
     Inr [\<lparr>subnet_index = 1, network = ''255.255.255.255'', broadcast = ''255.255.255.255'',
            first_host = ''N/A'', last_host = ''N/A''\<rparr>,
          \<lparr>subnet_index = 2, network = ''0.0.0.0'', broadcast = ''0.0.0.0'',
            first_host = ''N/A'', last_host = ''N/A''\<rparr>]"
  by code_simp

text \<open>
  Claim C1 says that the enumeration fails with an overflow error when
  \<open>base + total * subnet_size - 1 > 2 ^ 32 - 1\<close>. It does not: from the last address of
  the space, two subnets of one address each are returned, the second one at
  \<open>0.0.0.0\<close>.
\<close>

theorem get_subnet_ranges_overflow_counterexample:
  "(4294967295::int) + 2 * 2 ^ nat (32 - 32) - 1 > 2 ^ 32 - 1 \<and>
   get_subnet_ranges 4294967295 32 2 =
     Inr [\<lparr>subnet_index = 1, network = ''255.255.255.255'', broadcast = ''255.255.255.255'',
            first_host = ''N/A'', last_host = ''N/A''\<rparr>,
          \<lparr>subnet_index = 2, network = ''0.0.0.0'', broadcast = ''0.0.0.0'',
            first_host = ''N/A'', last_host = ''N/A''\<rparr>]"
  by (simp add: ranges_top_of_space)

text \<open>
  Claim C1, amended: for every base network integer, every new prefix up to 32 and every
  count (also when \<open>base + total * subnet_size - 1 > 2 ^ 32 - 1\<close>), the enumeration does
  not fail. It returns the list of \<open>total\<close> descriptors, and the network and broadcast
  address of each are written modulo \<open>2 ^ 32\<close>, that is, wrapped.
\<close>

theorem get_subnet_ranges_wraps:
  assumes "new_mask \<le> 32"
  shows "\<exists>ds. get_subnet_ranges base new_mask cnt = Inr ds \<and> length ds = nat cnt \<and>
           (\<forall>i < length ds.
              network (ds ! i) =
                int_to_dotted ((base + int i * 2 ^ nat (32 - new_mask)) mod 2 ^ 32) \<and>
              broadcast (ds ! i) =
                int_to_dotted
                  ((base + int i * 2 ^ nat (32 - new_mask) + 2 ^ nat (32 - new_mask) - 1) mod 2 ^ 32))"
proof -
  let ?ds = "map (\<lambda>i. sub_dict base new_mask (2 ^ nat (32 - new_mask)) (int i)) [0 ..< nat cnt]"
  have "get_subnet_ranges base new_mask cnt = Inr ?ds"
    using assms by (rule get_subnet_ranges_int)
  moreover have "length ?ds = nat cnt" by simp
  moreover have "\<forall>i < length ?ds.
      network (?ds ! i) = int_to_dotted ((base + int i * 2 ^ nat (32 - new_mask)) mod 2 ^ 32) \<and>
      broadcast (?ds ! i) =
        int_to_dotted
          ((base + int i * 2 ^ nat (32 - new_mask) + 2 ^ nat (32 - new_mask) - 1) mod 2 ^ 32)"
    by (simp only: int_to_dotted_mod) (simp add: sub_dict_def Let_def)
  ultimately show ?thesis by blast
qed

theorem get_subnet_ranges_wraps_witness:
  "(32::int) \<le> 32 \<and>
   (\<exists>ds. get_subnet_ranges 4294967295 32 2 = Inr ds \<and> length ds = nat 2 \<and>
      (\<forall>i < length ds.
         network (ds ! i) = int_to_dotted ((4294967295 + int i * 2 ^ nat (32 - 32)) mod 2 ^ 32) \<and>
         broadcast (ds ! i) =
           int_to_dotted
             ((4294967295 + int i * 2 ^ nat (32 - 32) + 2 ^ nat (32 - 32) - 1) mod 2 ^ 32)))"
proof -
  have h: "(32::int) \<le> 32" by simp
  from get_subnet_ranges_wraps [OF h, of 4294967295 2] h show ?thesis
    by blast
qed

text \<open>
  Claim C5: in every descriptor of the enumeration, \<open>first_host\<close> and \<open>last_host\<close> are the
  marker \<open>N/A\<close> when the new prefix is 31 or more; when it is 30 or less, \<open>first_host\<close>
  is the subnet's network address plus 1 and \<open>last_host\<close> its broadcast address minus 1.
\<close>

theorem get_subnet_ranges_hosts:
  assumes "get_subnet_ranges base new_mask cnt = Inr ds" and "i < length ds"
  shows "(new_mask \<ge> 31 \<longrightarrow> first_host (ds ! i) = ''N/A'' \<and> last_host (ds ! i) = ''N/A'') \<and>
         (new_mask \<le> 30 \<longrightarrow>
            (let subnet_size = 2 ^ nat (32 - new_mask);
                 network_int = base + int i * subnet_size;
                 broadcast_int = network_int + subnet_size - 1
             in network (ds ! i) = int_to_dotted network_int \<and>
                broadcast (ds ! i) = int_to_dotted broadcast_int \<and>
                first_host (ds ! i) = int_to_dotted (network_int + 1) \<and>
                last_host (ds ! i) = int_to_dotted (broadcast_int - 1)))"
proof (cases "new_mask \<le> 32")
  case True
  from get_subnet_ranges_int [OF True, of base cnt] assms(1)
  have ds: "ds = map (\<lambda>i. sub_dict base new_mask (2 ^ nat (32 - new_mask)) (int i)) [0 ..< nat cnt]"
    by simp
  with assms(2) have "ds ! i = sub_dict base new_mask (2 ^ nat (32 - new_mask)) (int i)"
    by simp
  then show ?thesis
    by (simp add: sub_dict_def Let_def algebra_simps)
next
  case False
  with assms show ?thesis
    using get_subnet_ranges_float [of new_mask base cnt ds] by simp
qed

theorem get_subnet_ranges_hosts_witness:
  "get_subnet_ranges 168430080 26 4 =
     Inr [\<lparr>subnet_index = 1, network = ''10.10.10.0'', broadcast = ''10.10.10.63'',
            first_host = ''10.10.10.1'', last_host = ''10.10.10.62''\<rparr>,
          \<lparr>subnet_index = 2, network = ''10.10.10.64'', broadcast = ''10.10.10.127'',
            first_host = ''10.10.10.65'', last_host = ''10.10.10.126''\<rparr>,
          \<lparr>subnet_index = 3, network = ''10.10.10.128'', broadcast = ''10.10.10.191'',
            first_host = ''10.10.10.129'', last_host = ''10.10.10.190''\<rparr>,
          \<lparr>subnet_index = 4, network = ''10.10.10.192'', broadcast = ''10.10.10.255'',
            first_host = ''10.10.10.193'', last_host = ''10.10.10.254''\<rparr>] \<and>
   int_to_dotted (168430080 + 3 * 2 ^ 6 + 1) = ''10.10.10.193'' \<and>
   int_to_dotted (168430080 + 3 * 2 ^ 6 + 2 ^ 6 - 1 - 1) = ''10.10.10.254''"
  using get_subnet_ranges_hosts [OF ranges_10_10_10_0, of 3] ranges_10_10_10_0
  by (simp add: Let_def)

text \<open>
  Claim C10: the conversion of an integer to dotted text reduces its argument modulo
  \<open>2 ^ 32\<close>: \<open>int_to_dotted x = int_to_dotted (x mod 2 ^ 32)\<close> for every integer \<open>x\<close>, so
  an address past the top of the space is written wrapped, not rejected
  (\<open>2 ^ 32 + 1\<close> as \<open>0.0.0.1\<close>).
\<close>

theorem int_to_dotted_wraps:
  "int_to_dotted x = int_to_dotted (x mod 2 ^ 32) \<and> int_to_dotted (2 ^ 32 + 1) = ''0.0.0.1''"
proof
  show "int_to_dotted x = int_to_dotted (x mod 2 ^ 32)" by (simp only: int_to_dotted_mod)
  show "int_to_dotted (2 ^ 32 + 1) = ''0.0.0.1''" by code_simp
qed

section \<open>The new mask\<close>

lemma ceil_log2: "1 \<le> n \<Longrightarrow> int (ceillog2 (nat n)) = \<lceil>log 2 (real_of_int n)\<rceil>"
proof -
  assume n: "1 \<le> n"
  then have "0 \<le> log 2 (real_of_int n)" by simp
  then have "0 \<le> \<lceil>log 2 (real_of_int n)\<rceil>" by linarith
  moreover have "real (nat n) = real_of_int n" using n by simp
  ultimately show ?thesis using n by (simp add: ceillog2_def)
qed

text \<open>
  Claim C2: for every original prefix in \<open>[0, 32]\<close> and every desired count of at least 1,
  the bits borrowed are \<open>\<lceil>log 2 count\<rceil>\<close> (0 for one subnet), the new prefix is the
  original one plus the bits borrowed and the total is 2 to the bits borrowed; the function
  fails, with its "cannot create" error, exactly when the new prefix is above 32.
\<close>

theorem calculate_new_subnet_mask_for_subnets_spec:
  assumes "0 \<le> originalPrefix" and "originalPrefix \<le> 32" and "1 \<le> desiredSubnetCount"
  shows "calculate_new_subnet_mask_for_subnets originalPrefix desiredSubnetCount =
           (let bitsBorrowed = \<lceil>log 2 (real_of_int desiredSubnetCount)\<rceil>;
                newPrefix = originalPrefix + bitsBorrowed
            in if newPrefix > 32 then Inl CannotCreateSubnets
               else Inr (newPrefix, 2 ^ nat bitsBorrowed, bitsBorrowed)) \<and>
         calculate_new_subnet_mask_for_subnets originalPrefix 1 = Inr (originalPrefix, 1, 0)"
  using assms by (simp add: calculate_new_subnet_mask_for_subnets_def Let_def ceil_log2)

theorem calculate_new_subnet_mask_for_subnets_spec_witness:
  "(0::int) \<le> 31 \<and> (31::int) \<le> 32 \<and> (1::int) \<le> 2 \<and>
   calculate_new_subnet_mask_for_subnets 31 2 = Inr (32, 2, 1) \<and>
   calculate_new_subnet_mask_for_subnets 31 1 = Inr (31, 1, 0)"
  using calculate_new_subnet_mask_for_subnets_spec [of 31 2] by simp

end
